theory Spec2Isabelle
  imports Complex_Main
begin

section \<open>Python values, exceptions and conversions\<close>

text \<open>
  The gateway works on whatever \<^verbatim>\<open>json.loads\<close> returns: a dict in the intended case, but
  any JSON value can arrive on the public broker. An object is kept as the list of the
  items of the resulting dict (its keys are distinct). Floats are modelled as reals, so
  rounding and the non-finite values are outside the model.
\<close>

datatype jval =
  JNull
| JBool bool
| JInt int
| JFloat real
| JStr string
| JList "jval list"
| JObj "(string \<times> jval) list"

datatype exn =
  KeyError | TypeError | ValueError | OverflowError | DecodeError | ArtifactError | DatabaseError

definition and_then :: "exn + 'a \<Rightarrow> ('a \<Rightarrow> exn + 'b) \<Rightarrow> exn + 'b" where
  "and_then m f = (case m of Inl e \<Rightarrow> Inl e | Inr x \<Rightarrow> f x)"

text \<open>\<^verbatim>\<open>sensor_data[key]\<close>: a missing key raises KeyError, a value that is not a dict TypeError.\<close>

definition subscript :: "jval \<Rightarrow> string \<Rightarrow> exn + jval" where
  "subscript v key =
     (case v of
        JObj items \<Rightarrow> (case map_of items key of None \<Rightarrow> Inl KeyError | Some x \<Rightarrow> Inr x)
      | _ \<Rightarrow> Inl TypeError)"

text \<open>
  What Python does with a string is not part of the repository: parsing a string as a
  number and formatting a value that is not a string are parameters.
\<close>

record python =
  str_to_float :: "string \<Rightarrow> real option"
  str_to_int :: "string \<Rightarrow> int option"
  str_of :: "jval \<Rightarrow> string"

text \<open>
  \<^verbatim>\<open>float(v)\<close>. An integer converts when it rounds to a double, that is, when its
  magnitude is below \<open>2^1024 - 2^970\<close>; a larger one raises OverflowError.
\<close>

definition py_float :: "python \<Rightarrow> jval \<Rightarrow> exn + real" where
  "py_float py v =
     (case v of
        JBool b \<Rightarrow> Inr (if b then 1 else 0)
      | JInt n \<Rightarrow> (if \<bar>n\<bar> < 2 ^ 1024 - 2 ^ 970 then Inr (real_of_int n) else Inl OverflowError)
      | JFloat r \<Rightarrow> Inr r
      | JStr s \<Rightarrow> (case str_to_float py s of None \<Rightarrow> Inl ValueError | Some r \<Rightarrow> Inr r)
      | _ \<Rightarrow> Inl TypeError)"

text \<open>\<^verbatim>\<open>int(v)\<close>: a float is truncated towards zero.\<close>

definition py_int :: "python \<Rightarrow> jval \<Rightarrow> exn + int" where
  "py_int py v =
     (case v of
        JBool b \<Rightarrow> Inr (if b then 1 else 0)
      | JInt n \<Rightarrow> Inr n
      | JFloat r \<Rightarrow> Inr (if 0 \<le> r then \<lfloor>r\<rfloor> else \<lceil>r\<rceil>)
      | JStr s \<Rightarrow> (case str_to_int py s of None \<Rightarrow> Inl ValueError | Some n \<Rightarrow> Inr n)
      | _ \<Rightarrow> Inl TypeError)"

definition py_format :: "python \<Rightarrow> jval \<Rightarrow> string" where
  "py_format py v = (case v of JStr s \<Rightarrow> s | _ \<Rightarrow> str_of py v)"

section \<open>The inference artifact and the gateway\<close>

text \<open>
  A feature is either the raw value of the payload (the numerical features are passed on
  as they came) or the code a label encoder returned.
\<close>

datatype feat = Raw jval | Code nat

text \<open>
  The pickled \<^verbatim>\<open>model_package\<close>. The scaler and the classifier are opaque:
  \<open>scaler\<close> is \<^verbatim>\<open>scaler.transform(X)\<close> on the one-row frame, \<open>model\<close> is
  \<^verbatim>\<open>model.predict_proba(X_scaled)[0, 1]\<close>; either may raise. A label encoder is opaque
  too: it is its \<^verbatim>\<open>transform([v])[0]\<close>, the code of a label of its vocabulary or the
  exception it raises on a label it rejects.
\<close>

record artifact =
  model :: "real list \<Rightarrow> exn + real"
  scaler :: "feat list \<Rightarrow> exn + real list"
  label_encoders :: "(string \<times> (jval \<Rightarrow> exn + nat)) list"
  feature_names :: "string list"
  threshold :: real

datatype connection = Connection

record line_stats =
  line_total :: nat
  line_defects :: nat

record statistics =
  total_processed :: nat
  defects_detected :: nat
  by_line :: "string \<rightharpoonup> line_stats"

record gateway = artifact +
  db_conn :: "connection option"
  stats :: statistics

definition initial_stats :: statistics where
  "initial_stats =
     \<lparr>total_processed = 0, defects_detected = 0,
      by_line = [''Lithography'' \<mapsto> \<lparr>line_total = 0, line_defects = 0\<rparr>,
                 ''Etching'' \<mapsto> \<lparr>line_total = 0, line_defects = 0\<rparr>,
                 ''Deposition'' \<mapsto> \<lparr>line_total = 0, line_defects = 0\<rparr>]\<rparr>"

text \<open>
  \<^verbatim>\<open>EdgeGateway.__init__\<close>: the first argument is the outcome of loading the artifact
  (an exception there, or a missing key of the package, leaves the constructor), the
  second the outcome of \<^verbatim>\<open>connect_database\<close> (\<open>None\<close> when the connection failed).
  Nothing is checked about the feature names.
\<close>

definition EdgeGateway_init :: "exn + artifact \<Rightarrow> connection option \<Rightarrow> exn + gateway" where
  "EdgeGateway_init loaded conn =
     (case loaded of
        Inl e \<Rightarrow> Inl e
      | Inr model_package \<Rightarrow>
          Inr \<lparr>model = model model_package,
               scaler = scaler model_package,
               label_encoders = label_encoders model_package,
               feature_names = feature_names model_package,
               threshold = threshold model_package,
               db_conn = conn,
               stats = initial_stats\<rparr>)"

section \<open>Prediction\<close>

definition numerical_features :: "(string \<times> string) list" where
  "numerical_features =
     [(''Chamber_Temperature'', ''chamber_temperature''),
      (''Gas_Flow_Rate'', ''gas_flow_rate''),
      (''RF_Power'', ''rf_power''),
      (''Etch_Depth'', ''etch_depth''),
      (''Rotation_Speed'', ''rotation_speed''),
      (''Vacuum_Pressure'', ''vacuum_pressure''),
      (''Stage_Alignment_Error'', ''stage_alignment_error''),
      (''Vibration_Level'', ''vibration_level''),
      (''UV_Exposure_Intensity'', ''uv_exposure_intensity''),
      (''Particle_Count'', ''particle_count'')]"

text \<open>The ten assignments \<^verbatim>\<open>features[name] = sensor_data[key]\<close>, in order.\<close>

fun read_features :: "jval \<Rightarrow> (string \<times> string) list \<Rightarrow> exn + (string \<times> feat) list" where
  "read_features sd [] = Inr []"
| "read_features sd ((name, key) # rest) =
     and_then (subscript sd key) (\<lambda>v.
     and_then (read_features sd rest) (\<lambda>fs. Inr ((name, Raw v) # fs)))"

text \<open>\<^verbatim>\<open>self.label_encoders[name].transform([v])[0]\<close>.\<close>

definition encode :: "'a artifact_scheme \<Rightarrow> string \<Rightarrow> jval \<Rightarrow> exn + nat" where
  "encode g name v =
     (case map_of (label_encoders g) name of
        None \<Rightarrow> Inl KeyError
      | Some encoder \<Rightarrow> encoder v)"

text \<open>\<^verbatim>\<open>pd.DataFrame([features])[self.feature_names]\<close>: a name that is no column raises.\<close>

fun select_columns :: "(string \<times> feat) list \<Rightarrow> string list \<Rightarrow> exn + feat list" where
  "select_columns features [] = Inr []"
| "select_columns features (n # ns) =
     (case map_of features n of
        None \<Rightarrow> Inl KeyError
      | Some x \<Rightarrow> and_then (select_columns features ns) (\<lambda>xs. Inr (x # xs)))"

text \<open>
  The first half of the \<^verbatim>\<open>try\<close> of \<^verbatim>\<open>predict_defect\<close>: the row \<^verbatim>\<open>X\<close>, the features
  in the order of \<^verbatim>\<open>feature_names\<close>.
\<close>

definition feature_row :: "'a artifact_scheme \<Rightarrow> jval \<Rightarrow> exn + feat list" where
  "feature_row g sd =
     and_then (read_features sd numerical_features) (\<lambda>numerical.
     and_then (subscript sd ''production_line'') (\<lambda>tool_type.
     and_then (encode g ''Tool_Type'' tool_type) (\<lambda>tool_code.
     and_then (subscript sd ''join_status'') (\<lambda>join_status.
     and_then (encode g ''Join_Status'' join_status) (\<lambda>join_code.
       select_columns
         (numerical @ [(''Tool_Type'', Code tool_code), (''Join_Status'', Code join_code)])
         (feature_names g))))))"

text \<open>The whole body: scale, predict, compare with the threshold.\<close>

definition predict_try :: "'a artifact_scheme \<Rightarrow> jval \<Rightarrow> exn + (int \<times> real)" where
  "predict_try g sd =
     and_then (feature_row g sd) (\<lambda>X.
     and_then (scaler g X) (\<lambda>X_scaled.
     and_then (model g X_scaled) (\<lambda>proba.
       Inr (if proba \<ge> threshold g then 1 else 0, proba))))"

text \<open>\<^verbatim>\<open>predict_defect\<close>: every exception of the body is turned into \<^verbatim>\<open>(0, 0.0)\<close>.\<close>

definition predict_defect :: "'a artifact_scheme \<Rightarrow> jval \<Rightarrow> int \<times> real" where
  "predict_defect g sd = (case predict_try g sd of Inl e \<Rightarrow> (0, 0) | Inr r \<Rightarrow> r)"

section \<open>The durable store\<close>

text \<open>
  The three tables. A column that the gateway fills with a value of the payload as it
  came holds that value (\<open>JNull\<close> is SQL's NULL); \<^verbatim>\<open>CURRENT_TIMESTAMP\<close> is a number.
\<close>

record line_row =
  line_name :: string
  status :: string
  current_wafer_id :: jval
  last_updated :: nat

record sensor_row =
  process_id :: jval
  timestamp :: jval
  production_line :: jval
  wafer_id :: jval
  chamber_temperature :: real
  gas_flow_rate :: real
  rf_power :: real
  etch_depth :: real
  rotation_speed :: real
  vacuum_pressure :: real
  stage_alignment_error :: real
  vibration_level :: real
  uv_exposure_intensity :: real
  particle_count :: int
  join_status :: jval
  predicted_defect :: int
  defect_probability :: real
  actual_defect :: int

record alert_row =
  alert_id :: nat
  alert_production_line :: jval
  alert_wafer_id :: jval
  alert_message :: string
  alert_defect_probability :: real
  created_at :: nat
  acknowledged :: bool
  acknowledged_at :: "nat option"

record database =
  production_lines :: "line_row list"
  sensor_data :: "sensor_row list"
  alerts :: "alert_row list"

text \<open>
  What the database server does during one call is an input: the first operation that
  fails (if any), whether \<^verbatim>\<open>rollback()\<close> itself raises (a lost connection), and the
  current time. A statement that the driver or the server rejects (a value it cannot
  adapt, a constraint of the schema) is such a failing operation. The statements of a
  call run in one transaction of the connection, on a working copy of the committed
  tables: \<^verbatim>\<open>commit()\<close> makes the copy the committed state, \<^verbatim>\<open>rollback()\<close> and a lost
  connection discard it.
\<close>

datatype db_step = Cursor | InsertSensor | UpdateLine | InsertAlert | UpdateAlert | Commit

record db_env =
  fail_at :: "db_step option"
  rollback_raises :: bool
  now :: nat

definition db_op :: "db_env \<Rightarrow> db_step \<Rightarrow> 'a \<Rightarrow> exn + 'a" where
  "db_op env step x = (if fail_at env = Some step then Inl DatabaseError else Inr x)"

definition insert_sensor_data :: "sensor_row \<Rightarrow> database \<Rightarrow> database" where
  "insert_sensor_data row db = db\<lparr>sensor_data := sensor_data db @ [row]\<rparr>"

text \<open>\<^verbatim>\<open>UPDATE production_lines SET ... WHERE line_name = %s\<close>: the rows of that name.\<close>

definition update_production_line :: "string \<Rightarrow> jval \<Rightarrow> nat \<Rightarrow> jval \<Rightarrow> database \<Rightarrow> database" where
  "update_production_line st wafer t line db =
     db\<lparr>production_lines :=
          map (\<lambda>r. if JStr (line_name r) = line
                    then r\<lparr>status := st, current_wafer_id := wafer, last_updated := t\<rparr>
                    else r)
              (production_lines db)\<rparr>"

definition fresh_alert_id :: "alert_row list \<Rightarrow> nat" where
  "fresh_alert_id as = Suc (fold max (map alert_id as) 0)"

text \<open>
  Modelled from the spec: the defaults of the columns of \<^verbatim>\<open>alerts\<close> that the INSERT does
  not name (the schema is not in the repository). The spec has a new alert in the active
  state: \<open>acknowledged\<close> false, \<open>acknowledgedAt\<close> absent, with an id of its own and the time
  of its creation. The dashboard agrees: its active alerts are the rows with
  \<^verbatim>\<open>acknowledged = FALSE\<close>.
\<close>

definition insert_alert :: "nat \<Rightarrow> jval \<Rightarrow> jval \<Rightarrow> string \<Rightarrow> real \<Rightarrow> database \<Rightarrow> database" where
  "insert_alert t line wafer message probability db =
     db\<lparr>alerts := alerts db @
          [\<lparr>alert_id = fresh_alert_id (alerts db),
            alert_production_line = line,
            alert_wafer_id = wafer,
            alert_message = message,
            alert_defect_probability = probability,
            created_at = t,
            acknowledged = False,
            acknowledged_at = None\<rparr>]\<rparr>"

section \<open>Persistence\<close>

text \<open>The tuple of parameters of the INSERT into \<^verbatim>\<open>sensor_data\<close>, built left to right.\<close>

definition sensor_row_of :: "python \<Rightarrow> jval \<Rightarrow> int \<Rightarrow> real \<Rightarrow> exn + sensor_row" where
  "sensor_row_of py sd prediction probability =
     and_then (subscript sd ''process_id'') (\<lambda>c1.
     and_then (subscript sd ''timestamp'') (\<lambda>c2.
     and_then (subscript sd ''production_line'') (\<lambda>c3.
     and_then (subscript sd ''wafer_id'') (\<lambda>c4.
     and_then (and_then (subscript sd ''chamber_temperature'') (py_float py)) (\<lambda>c5.
     and_then (and_then (subscript sd ''gas_flow_rate'') (py_float py)) (\<lambda>c6.
     and_then (and_then (subscript sd ''rf_power'') (py_float py)) (\<lambda>c7.
     and_then (and_then (subscript sd ''etch_depth'') (py_float py)) (\<lambda>c8.
     and_then (and_then (subscript sd ''rotation_speed'') (py_float py)) (\<lambda>c9.
     and_then (and_then (subscript sd ''vacuum_pressure'') (py_float py)) (\<lambda>c10.
     and_then (and_then (subscript sd ''stage_alignment_error'') (py_float py)) (\<lambda>c11.
     and_then (and_then (subscript sd ''vibration_level'') (py_float py)) (\<lambda>c12.
     and_then (and_then (subscript sd ''uv_exposure_intensity'') (py_float py)) (\<lambda>c13.
     and_then (and_then (subscript sd ''particle_count'') (py_int py)) (\<lambda>c14.
     and_then (subscript sd ''join_status'') (\<lambda>c15.
     and_then (and_then (subscript sd ''actual_defect'') (py_int py)) (\<lambda>c18.
       Inr \<lparr>process_id = c1, timestamp = c2, production_line = c3, wafer_id = c4,
            chamber_temperature = c5, gas_flow_rate = c6, rf_power = c7, etch_depth = c8,
            rotation_speed = c9, vacuum_pressure = c10, stage_alignment_error = c11,
            vibration_level = c12, uv_exposure_intensity = c13, particle_count = c14,
            join_status = c15, predicted_defect = prediction,
            defect_probability = probability, actual_defect = c18\<rparr>))))))))))))))))"

text \<open>
  The body of the \<^verbatim>\<open>try\<close> of \<^verbatim>\<open>store_to_database\<close>, on the working copy of the tables:
  the result is what \<^verbatim>\<open>commit()\<close> made durable, or the exception that left the body.
\<close>

definition store_try :: "python \<Rightarrow> db_env \<Rightarrow> database \<Rightarrow> jval \<Rightarrow> int \<Rightarrow> real \<Rightarrow> exn + database" where
  "store_try py env db sd prediction probability =
     and_then (db_op env Cursor ()) (\<lambda>cursor.
     and_then (sensor_row_of py sd prediction probability) (\<lambda>row.
     and_then (db_op env InsertSensor (insert_sensor_data row db)) (\<lambda>db1.
     and_then (subscript sd ''wafer_id'') (\<lambda>wafer.
     and_then (subscript sd ''production_line'') (\<lambda>line.
     and_then (db_op env UpdateLine
                 (update_production_line ''Running'' wafer (now env) line db1)) (\<lambda>db2.
     and_then (if prediction = 1
               then db_op env InsertAlert
                      (insert_alert (now env) line wafer
                         (''Defect detected on '' @ py_format py line @ '' line'')
                         probability db2)
               else Inr db2) (\<lambda>db3.
       db_op env Commit db3)))))))"

text \<open>
  \<^verbatim>\<open>store_to_database\<close> returns nothing; the first component is the exception that
  leaves it (only \<^verbatim>\<open>rollback()\<close> in the handler can raise), the second the committed
  tables afterwards.
\<close>

definition store_to_database ::
  "python \<Rightarrow> db_env \<Rightarrow> 'a gateway_scheme \<Rightarrow> database \<Rightarrow> jval \<Rightarrow> int \<Rightarrow> real \<Rightarrow> exn option \<times> database" where
  "store_to_database py env g db sd prediction probability =
     (case db_conn g of
        None \<Rightarrow> (None, db)
      | Some c \<Rightarrow>
          (case store_try py env db sd prediction probability of
             Inr db' \<Rightarrow> (None, db')
           | Inl e \<Rightarrow> (if rollback_raises env then Some DatabaseError else None, db)))"

section \<open>The message handler\<close>

text \<open>\<^verbatim>\<open>self.stats['by_line'][line]\<close>: only a string can be one of the keys.\<close>

definition lookup_line :: "statistics \<Rightarrow> jval \<Rightarrow> exn + (string \<times> line_stats)" where
  "lookup_line st line =
     (case line of
        JStr s \<Rightarrow> (case by_line st s of None \<Rightarrow> Inl KeyError | Some ls \<Rightarrow> Inr (s, ls))
      | JList xs \<Rightarrow> Inl TypeError
      | JObj items \<Rightarrow> Inl TypeError
      | _ \<Rightarrow> Inl KeyError)"

text \<open>
  The statistics block of \<^verbatim>\<open>on_message\<close>. The global counter is incremented before the
  line is looked up, so it keeps its increment when the lookup raises.
\<close>

definition update_statistics :: "statistics \<Rightarrow> jval \<Rightarrow> int \<Rightarrow> statistics" where
  "update_statistics st line prediction =
     (let st1 = st\<lparr>total_processed := total_processed st + 1\<rparr> in
      case lookup_line st1 line of
        Inl e \<Rightarrow> st1
      | Inr (s, ls) \<Rightarrow>
          (let ls1 = ls\<lparr>line_total := line_total ls + 1\<rparr>;
               st2 = st1\<lparr>by_line := (by_line st1)(s \<mapsto> ls1)\<rparr>
           in if prediction = 1
              then st2\<lparr>defects_detected := defects_detected st2 + 1,
                       by_line := (by_line st2)(s \<mapsto> ls1\<lparr>line_defects := line_defects ls1 + 1\<rparr>)\<rparr>
              else st2))"

text \<open>
  \<^verbatim>\<open>on_message\<close>: the payload is the outcome of \<^verbatim>\<open>json.loads(msg.payload.decode())\<close>.
  Every exception is caught; the log line after the statistics changes no state.
\<close>

definition on_message ::
  "python \<Rightarrow> db_env \<Rightarrow> gateway \<times> database \<Rightarrow> exn + jval \<Rightarrow> gateway \<times> database" where
  "on_message py env s payload =
     (case s of (g, db) \<Rightarrow>
      (case payload of
         Inl e \<Rightarrow> (g, db)
       | Inr sd \<Rightarrow>
           (case predict_defect g sd of (prediction, probability) \<Rightarrow>
            (case store_to_database py env g db sd prediction probability of
               (Some e, db') \<Rightarrow> (g, db')
             | (None, db') \<Rightarrow>
                 (case subscript sd ''production_line'' of
                    Inl e \<Rightarrow> (g, db')
                  | Inr line \<Rightarrow>
                      (g\<lparr>stats := update_statistics (stats g) line prediction\<rparr>, db'))))))"

text \<open>The messages that arrive while the gateway runs, each with what the server did.\<close>

fun run :: "python \<Rightarrow> gateway \<times> database \<Rightarrow> (db_env \<times> (exn + jval)) list \<Rightarrow> gateway \<times> database" where
  "run py s [] = s"
| "run py s ((env, payload) # rest) = run py (on_message py env s payload) rest"

section \<open>Acknowledging an alert (dashboard)\<close>

definition set_acknowledged :: "nat \<Rightarrow> nat \<Rightarrow> database \<Rightarrow> database" where
  "set_acknowledged t aid db =
     db\<lparr>alerts :=
          map (\<lambda>a. if alert_id a = aid
                    then a\<lparr>acknowledged := True, acknowledged_at := Some t\<rparr>
                    else a)
              (alerts db)\<rparr>"

text \<open>
  \<^verbatim>\<open>acknowledge_alert\<close>: the connection is the one \<^verbatim>\<open>get_db_connection\<close> returns.
  The first component is the returned flag, or the exception of a failing
  \<^verbatim>\<open>rollback()\<close>.
\<close>

definition acknowledge_alert ::
  "db_env \<Rightarrow> connection option \<Rightarrow> database \<Rightarrow> nat \<Rightarrow> (exn + bool) \<times> database" where
  "acknowledge_alert env conn db aid =
     (case conn of
        None \<Rightarrow> (Inr False, db)
      | Some c \<Rightarrow>
          (case and_then (db_op env Cursor ()) (\<lambda>cursor.
                and_then (db_op env UpdateAlert (set_acknowledged (now env) aid db)) (\<lambda>db1.
                  db_op env Commit db1)) of
             Inr db' \<Rightarrow> (Inr True, db')
           | Inl e \<Rightarrow> (if rollback_raises env then Inl DatabaseError else Inr False, db)))"

section \<open>Notions used in the statements\<close>

text \<open>
  The server makes the transaction of \<^verbatim>\<open>store_to_database\<close> fail when the failing
  operation is one the call reaches: the alert is inserted only for prediction 1, and
  \<open>UpdateAlert\<close> belongs to the dashboard.
\<close>

definition db_fails :: "db_env \<Rightarrow> int \<Rightarrow> bool" where
  "db_fails env d =
     (case fail_at env of
        None \<Rightarrow> False
      | Some step \<Rightarrow> step = Cursor \<or> step = InsertSensor \<or> step = UpdateLine \<or>
                      (step = InsertAlert \<and> d = 1) \<or> step = Commit)"

text \<open>The three writes for one row, all applied.\<close>

definition all_writes :: "python \<Rightarrow> nat \<Rightarrow> sensor_row \<Rightarrow> database \<Rightarrow> database" where
  "all_writes py t row db =
     (let db1 = insert_sensor_data row db;
          db2 = update_production_line ''Running'' (wafer_id row) t (production_line row) db1
      in if predicted_defect row = 1
         then insert_alert t (production_line row) (wafer_id row)
                (''Defect detected on '' @ py_format py (production_line row) @ '' line'')
                (defect_probability row) db2
         else db2)"

text \<open>
  A message reaches the statistics block when it decodes, the call of
  \<^verbatim>\<open>store_to_database\<close> returns (having committed, rolled back or done nothing) and the
  payload has a production line; the result is that line and the prediction.
\<close>

definition reaches_statistics ::
  "python \<Rightarrow> db_env \<Rightarrow> gateway \<times> database \<Rightarrow> exn + jval \<Rightarrow> (jval \<times> int) option" where
  "reaches_statistics py env s payload =
     (case s of (g, db) \<Rightarrow>
      (case payload of
         Inl e \<Rightarrow> None
       | Inr sd \<Rightarrow>
           (case predict_defect g sd of (prediction, probability) \<Rightarrow>
            (case fst (store_to_database py env g db sd prediction probability) of
               Some e \<Rightarrow> None
             | None \<Rightarrow>
                 (case subscript sd ''production_line'' of
                    Inl e \<Rightarrow> None
                  | Inr line \<Rightarrow> Some (line, prediction))))))"

text \<open>How many messages of a run reach the statistics block for a line, and with prediction 1.\<close>

fun processed ::
  "python \<Rightarrow> gateway \<times> database \<Rightarrow> (db_env \<times> (exn + jval)) list \<Rightarrow> string \<Rightarrow> nat" where
  "processed py s [] l = 0"
| "processed py s ((env, payload) # rest) l =
     (case reaches_statistics py env s payload of
        None \<Rightarrow> 0
      | Some (line, prediction) \<Rightarrow> if line = JStr l then 1 else 0)
     + processed py (on_message py env s payload) rest l"

fun defective ::
  "python \<Rightarrow> gateway \<times> database \<Rightarrow> (db_env \<times> (exn + jval)) list \<Rightarrow> string \<Rightarrow> nat" where
  "defective py s [] l = 0"
| "defective py s ((env, payload) # rest) l =
     (case reaches_statistics py env s payload of
        None \<Rightarrow> 0
      | Some (line, prediction) \<Rightarrow> if line = JStr l \<and> prediction = 1 then 1 else 0)
     + defective py (on_message py env s payload) rest l"

text \<open>The features the pipeline builds.\<close>

definition pipeline_features :: "string list" where
  "pipeline_features = map fst numerical_features @ [''Tool_Type'', ''Join_Status'']"

section \<open>A stub artifact, an event and a store\<close>

definition py0 :: python where
  "py0 = \<lparr>str_to_float = (\<lambda>s. None), str_to_int = (\<lambda>s. None), str_of = (\<lambda>v. ''?'')\<rparr>"

fun index_of :: "'a \<Rightarrow> 'a list \<Rightarrow> nat option" where
  "index_of x [] = None"
| "index_of x (y # ys) = (if x = y then Some 0 else map_option Suc (index_of x ys))"

text \<open>
  A stub label encoder over a list of classes: the code of a string is its position in
  the list, a list holding one string is taken as that string, and every other label
  raises.
\<close>

definition stub_encoder :: "string list \<Rightarrow> jval \<Rightarrow> exn + nat" where
  "stub_encoder classes v =
     (case v of
        JStr s \<Rightarrow> (case index_of s classes of None \<Rightarrow> Inl ValueError | Some i \<Rightarrow> Inr i)
      | JList [JStr s] \<Rightarrow> (case index_of s classes of None \<Rightarrow> Inl ValueError | Some i \<Rightarrow> Inr i)
      | _ \<Rightarrow> Inl ValueError)"

text \<open>A stub classifier with a fixed outcome, threshold 0.5.\<close>

definition stub_artifact :: "exn + real \<Rightarrow> string list \<Rightarrow> artifact" where
  "stub_artifact out names =
     \<lparr>model = (\<lambda>xs. out),
      scaler = (\<lambda>X. Inr (map (\<lambda>x. 0) X)),
      label_encoders =
        [(''Tool_Type'', stub_encoder [''Deposition'', ''Etching'', ''Lithography'']),
         (''Join_Status'', stub_encoder [''Failed'', ''OK''])],
      feature_names = names,
      threshold = 1 / 2\<rparr>"

definition stub_gateway :: "exn + real \<Rightarrow> string list \<Rightarrow> connection option \<Rightarrow> gateway" where
  "stub_gateway out names conn =
     \<lparr>model = (\<lambda>xs. out),
      scaler = (\<lambda>X. Inr (map (\<lambda>x. 0) X)),
      label_encoders =
        [(''Tool_Type'', stub_encoder [''Deposition'', ''Etching'', ''Lithography'']),
         (''Join_Status'', stub_encoder [''Failed'', ''OK''])],
      feature_names = names,
      threshold = 1 / 2,
      db_conn = conn,
      stats = initial_stats\<rparr>"

definition event :: "string \<Rightarrow> string \<Rightarrow> jval" where
  "event line js = JObj
     [(''process_id'', JStr ''P1''), (''timestamp'', JStr ''2024-01-01T00:00:00''),
      (''production_line'', JStr line), (''wafer_id'', JStr ''W1''),
      (''chamber_temperature'', JFloat 75), (''gas_flow_rate'', JFloat 50),
      (''rf_power'', JFloat 300), (''etch_depth'', JFloat 500),
      (''rotation_speed'', JFloat 1500), (''vacuum_pressure'', JFloat (1 / 2)),
      (''stage_alignment_error'', JFloat 2), (''vibration_level'', JFloat (1 / 100)),
      (''uv_exposure_intensity'', JFloat 120), (''particle_count'', JInt 10),
      (''join_status'', JStr js), (''actual_defect'', JInt 0)]"

definition event_row :: "string \<Rightarrow> string \<Rightarrow> int \<Rightarrow> real \<Rightarrow> sensor_row" where
  "event_row line js d p =
     \<lparr>process_id = JStr ''P1'', timestamp = JStr ''2024-01-01T00:00:00'',
      production_line = JStr line, wafer_id = JStr ''W1'',
      chamber_temperature = 75, gas_flow_rate = 50, rf_power = 300, etch_depth = 500,
      rotation_speed = 1500, vacuum_pressure = 1 / 2, stage_alignment_error = 2,
      vibration_level = 1 / 100, uv_exposure_intensity = 120, particle_count = 10,
      join_status = JStr js, predicted_defect = d, defect_probability = p,
      actual_defect = 0\<rparr>"

definition idle_line :: "string \<Rightarrow> line_row" where
  "idle_line l = \<lparr>line_name = l, status = ''Idle'', current_wafer_id = JNull, last_updated = 0\<rparr>"

definition idle_lines :: database where
  "idle_lines =
     \<lparr>production_lines = [idle_line ''Deposition'', idle_line ''Etching'', idle_line ''Lithography''],
      sensor_data = [], alerts = []\<rparr>"

definition server :: "db_step option \<Rightarrow> db_env" where
  "server f = \<lparr>fail_at = f, rollback_raises = False, now = 7\<rparr>"

text \<open>The feature row of the event under the stub encoders, and its scaled form.\<close>

definition event_features :: "feat list" where
  "event_features =
     [Raw (JFloat 75), Raw (JFloat 50), Raw (JFloat 300), Raw (JFloat 500), Raw (JFloat 1500),
      Raw (JFloat (1 / 2)), Raw (JFloat 2), Raw (JFloat (1 / 100)), Raw (JFloat 120),
      Raw (JInt 10), Code 1, Code 1]"

definition zeros :: "real list" where
  "zeros = [0, 0, 0, 0, 0, 0, 0, 0, 0, 0, 0, 0]"

text \<open>A store with one alert, acknowledged at time 5.\<close>

definition acked_alerts :: database where
  "acked_alerts =
     \<lparr>production_lines = [idle_line ''Etching''],
      sensor_data = [],
      alerts = [\<lparr>alert_id = 1, alert_production_line = JStr ''Etching'',
                 alert_wafer_id = JStr ''W1'',
                 alert_message = ''Defect detected on Etching line'',
                 alert_defect_probability = 92 / 100, created_at = 3,
                 acknowledged = True, acknowledged_at = Some 5\<rparr>]\<rparr>"

section \<open>Auxiliary facts\<close>

lemma and_then_Inl [simp]: "and_then (Inl e) f = Inl e"
  by (simp add: and_then_def)

lemma and_then_Inr [simp]: "and_then (Inr x) f = f x"
  by (simp add: and_then_def)

lemma and_then_eq_Inr: "and_then m f = Inr y \<longleftrightarrow> (\<exists>x. m = Inr x \<and> f x = Inr y)"
  by (cases m) simp_all

lemma sensor_row_of_fields:
  assumes "sensor_row_of py sd d p = Inr row"
  shows "subscript sd ''production_line'' = Inr (production_line row)"
    and "subscript sd ''wafer_id'' = Inr (wafer_id row)"
    and "predicted_defect row = d"
    and "defect_probability row = p"
  using assms unfolding sensor_row_of_def and_then_eq_Inr by auto

lemma store_try_row_error:
  "sensor_row_of py sd d p = Inl e \<Longrightarrow> \<exists>e'. store_try py env db sd d p = Inl e'"
  by (simp add: store_try_def db_op_def)

lemma store_try_db_fails:
  "db_fails env d \<Longrightarrow> \<exists>e'. store_try py env db sd d p = Inl e'"
proof (cases "sensor_row_of py sd d p")
  case (Inl e)
  then show ?thesis by (simp add: store_try_row_error)
next
  case (Inr row)
  assume "db_fails env d"
  with Inr show ?thesis
    by (auto simp: store_try_def db_op_def db_fails_def sensor_row_of_fields split: option.splits)
qed

lemma store_try_commits:
  "sensor_row_of py sd d p = Inr row \<Longrightarrow> \<not> db_fails env d \<Longrightarrow>
   store_try py env db sd d p = Inr (all_writes py (now env) row db)"
  by (cases "fail_at env"; cases "the (fail_at env)")
     (auto simp: store_try_def db_op_def db_fails_def all_writes_def Let_def sensor_row_of_fields)

lemma store_try_Inr:
  assumes "store_try py env db sd d p = Inr db'"
  shows "\<exists>row. sensor_row_of py sd d p = Inr row \<and> \<not> db_fails env d \<and>
           db' = all_writes py (now env) row db"
proof -
  from assms store_try_db_fails [of env d py db sd p] have nf: "\<not> db_fails env d"
    by auto
  from assms store_try_row_error [of py sd d p _ env db] obtain row where
    row: "sensor_row_of py sd d p = Inr row"
    by (cases "sensor_row_of py sd d p") auto
  from row nf assms have "db' = all_writes py (now env) row db"
    by (simp add: store_try_commits)
  with row nf show ?thesis by blast
qed

lemma store_to_database_result:
  "snd (store_to_database py env g db sd d p) =
     (if db_conn g = None \<or> db_fails env d then db
      else case sensor_row_of py sd d p of
             Inl e \<Rightarrow> db
           | Inr row \<Rightarrow> all_writes py (now env) row db)"
proof (cases "db_conn g")
  case None
  then show ?thesis by (simp add: store_to_database_def)
next
  case (Some c)
  show ?thesis
  proof (cases "db_fails env d")
    case True
    with store_try_db_fails [of env d py db sd p] obtain e' where
      "store_try py env db sd d p = Inl e'" by blast
    with Some True show ?thesis by (simp add: store_to_database_def)
  next
    case False
    show ?thesis
    proof (cases "sensor_row_of py sd d p")
      case (Inl e)
      with store_try_row_error [of py sd d p e env db] obtain e' where
        "store_try py env db sd d p = Inl e'" by blast
      with Some False Inl show ?thesis by (simp add: store_to_database_def)
    next
      case (Inr row)
      with False have "store_try py env db sd d p = Inr (all_writes py (now env) row db)"
        by (simp add: store_try_commits)
      with Some False Inr show ?thesis by (simp add: store_to_database_def)
    qed
  qed
qed

lemma acknowledge_alert_tables:
  "production_lines (snd (acknowledge_alert env conn db aid)) = production_lines db"
  "sensor_data (snd (acknowledge_alert env conn db aid)) = sensor_data db"
  by (auto simp: acknowledge_alert_def db_op_def set_acknowledged_def split: option.splits)

lemma event_row_of: "sensor_row_of py0 (event l js) d p = Inr (event_row l js d p)"
  by (simp add: sensor_row_of_def event_def event_row_def subscript_def py_float_def py_int_def)

section \<open>Persistence is atomic\<close>

text \<open>
  C1. The three writes of \<^verbatim>\<open>store_to_database\<close> (the row of \<^verbatim>\<open>sensor_data\<close>, the update
  of the production line and, for prediction 1, the alert) are one unit: the committed
  tables after the call are the tables before it when there is no connection, when any
  operation the call reaches fails, or when a parameter of the INSERT cannot be built;
  otherwise they are the tables with all the writes applied. No state in between is ever
  committed.
\<close>

theorem store_to_database_atomic:
  "snd (store_to_database py env g db sd d p) =
     (if db_conn g = None \<or> db_fails env d then db
      else case sensor_row_of py sd d p of
             Inl e \<Rightarrow> db
           | Inr row \<Rightarrow> all_writes py (now env) row db)
   \<and> (snd (store_to_database py env g db sd d p) = db \<or>
      (\<exists>row. sensor_row_of py sd d p = Inr row \<and>
         snd (store_to_database py env g db sd d p) = all_writes py (now env) row db))"
proof -
  have eq: "snd (store_to_database py env g db sd d p) =
     (if db_conn g = None \<or> db_fails env d then db
      else case sensor_row_of py sd d p of
             Inl e \<Rightarrow> db
           | Inr row \<Rightarrow> all_writes py (now env) row db)"
    by (rule store_to_database_result)
  then have "snd (store_to_database py env g db sd d p) = db \<or>
      (\<exists>row. sensor_row_of py sd d p = Inr row \<and>
         snd (store_to_database py env g db sd d p) = all_writes py (now env) row db)"
    by (cases "sensor_row_of py sd d p") (auto split: if_splits)
  with eq show ?thesis by blast
qed

text \<open>
  A failure forced at the second write, after the row was inserted in the transaction,
  leaves the tables as they were; with no failure the row is there.
\<close>

theorem store_to_database_atomic_witness:
  "snd (store_to_database py0 (server (Some UpdateLine))
          (stub_gateway (Inr (92 / 100)) pipeline_features (Some Connection))
          idle_lines (event ''Etching'' ''OK'') 1 (92 / 100)) = idle_lines
   \<and> sensor_data (snd (store_to_database py0 (server None)
          (stub_gateway (Inr (92 / 100)) pipeline_features (Some Connection))
          idle_lines (event ''Etching'' ''OK'') 1 (92 / 100)))
       = [event_row ''Etching'' ''OK'' 1 (92 / 100)]"
  using store_to_database_atomic [of py0 "server (Some UpdateLine)"
          "stub_gateway (Inr (92 / 100)) pipeline_features (Some Connection)"
          idle_lines "event ''Etching'' ''OK''" 1 "92 / 100"]
    store_to_database_atomic [of py0 "server None"
          "stub_gateway (Inr (92 / 100)) pipeline_features (Some Connection)"
          idle_lines "event ''Etching'' ''OK''" 1 "92 / 100"]
  by (simp add: db_fails_def server_def stub_gateway_def event_row_of all_writes_def
        insert_sensor_data_def update_production_line_def insert_alert_def idle_lines_def
        Let_def event_row_def idle_line_def)

section \<open>More auxiliary facts\<close>

lemma production_lines_all_writes:
  "production_lines (all_writes py t row db) =
     map (\<lambda>r. if JStr (line_name r) = production_line row
               then r\<lparr>status := ''Running'', current_wafer_id := wafer_id row, last_updated := t\<rparr>
               else r)
         (production_lines db)"
  by (simp add: all_writes_def Let_def insert_alert_def update_production_line_def
        insert_sensor_data_def)

lemma alerts_all_writes:
  "alerts (all_writes py t row db) =
     (if predicted_defect row = 1
      then alerts db @
           [\<lparr>alert_id = fresh_alert_id (alerts db),
             alert_production_line = production_line row,
             alert_wafer_id = wafer_id row,
             alert_message = ''Defect detected on '' @ py_format py (production_line row) @ '' line'',
             alert_defect_probability = defect_probability row,
             created_at = t,
             acknowledged = False,
             acknowledged_at = None\<rparr>]
      else alerts db)"
  by (simp add: all_writes_def Let_def insert_alert_def update_production_line_def
        insert_sensor_data_def)

lemma sensor_data_all_writes:
  "sensor_data (all_writes py t row db) = sensor_data db @ [row]"
  by (simp add: all_writes_def Let_def insert_alert_def update_production_line_def
        insert_sensor_data_def)

lemma on_message_tables:
  "snd (on_message py env (g, db) payload) =
     (case payload of
        Inl e \<Rightarrow> db
      | Inr sd \<Rightarrow> snd (store_to_database py env g db sd
                        (fst (predict_defect g sd)) (snd (predict_defect g sd))))"
  by (simp add: on_message_def split: sum.splits prod.splits option.splits)

lemma status_written:
  "list_all2 (\<lambda>r r'. line_name r' = line_name r \<and> (status r' = status r \<or> status r' = ''Running''))
     rs (map (\<lambda>r. if JStr (line_name r) = line
               then r\<lparr>status := ''Running'', current_wafer_id := wafer, last_updated := t\<rparr>
               else r) rs)"
  by (induction rs) simp_all

lemma status_kept:
  "list_all2 (\<lambda>r r'. line_name r' = line_name r \<and> (status r' = status r \<or> status r' = ''Running''))
     rs rs"
  by (induction rs) simp_all

lemma store_to_database_status:
  "list_all2 (\<lambda>r r'. line_name r' = line_name r \<and> (status r' = status r \<or> status r' = ''Running''))
     (production_lines db) (production_lines (snd (store_to_database py env g db sd d p)))"
  by (simp add: store_to_database_result production_lines_all_writes status_written status_kept
        split: sum.splits)

lemma update_statistics_by_line:
  assumes "by_line st l = Some ls"
  shows "by_line (update_statistics st line d) l =
           Some (ls\<lparr>line_total := line_total ls + (if line = JStr l then 1 else 0),
                    line_defects := line_defects ls + (if line = JStr l \<and> d = 1 then 1 else 0)\<rparr>)"
  using assms
  by (cases line)
     (auto simp: update_statistics_def lookup_line_def Let_def split: option.splits)

lemma update_statistics_totals:
  "total_processed (update_statistics st line d) = total_processed st + 1"
  by (cases line)
     (auto simp: update_statistics_def lookup_line_def Let_def split: option.splits)

lemma stub_predict:
  "predict_defect (stub_gateway (Inr q) pipeline_features conn) (event ''Etching'' ''OK'') =
     (if 1 / 2 \<le> q then 1 else 0, q)"
  by (simp add: predict_defect_def predict_try_def feature_row_def stub_gateway_def
        pipeline_features_def event_def numerical_features_def subscript_def encode_def
        stub_encoder_def)

lemma event_fields:
  "subscript (event l js) ''production_line'' = Inr (JStr l)"
  "subscript (event l js) ''wafer_id'' = Inr (JStr ''W1'')"
  "subscript (event l js) ''join_status'' = Inr (JStr js)"
  by (simp_all add: event_def subscript_def)

lemma server_ok: "\<not> db_fails (server None) d"
  by (simp add: db_fails_def server_def)

lemma event_store_try:
  "store_try py0 (server None) db (event l js) d p =
     Inr (all_writes py0 7 (event_row l js d p) db)"
proof -
  have "sensor_row_of py0 (event l js) d p = Inr (event_row l js d p)"
    by (rule event_row_of)
  from store_try_commits [OF this server_ok, of db] show ?thesis
    by (simp add: server_def)
qed

section \<open>Alerts\<close>

text \<open>
  C5. When the transaction of an event commits, an alert row is appended exactly when
  the prediction is 1 and no alert is touched otherwise; the new alert is active (not
  acknowledged, no acknowledgment time) and carries the production line, the wafer
  id and the probability of the event. Acknowledging an alert, whatever its outcome,
  leaves the table of production lines as it is.
\<close>

theorem alert_iff_defect:
  assumes "db_conn g = Some c"
    and "store_try py env db sd d p = Inr db'"
    and "subscript sd ''production_line'' = Inr line"
    and "subscript sd ''wafer_id'' = Inr wafer"
  shows "store_to_database py env g db sd d p = (None, db')
       \<and> alerts db' =
           (if d = 1
            then alerts db @
                 [\<lparr>alert_id = fresh_alert_id (alerts db),
                   alert_production_line = line,
                   alert_wafer_id = wafer,
                   alert_message = ''Defect detected on '' @ py_format py line @ '' line'',
                   alert_defect_probability = p,
                   created_at = now env,
                   acknowledged = False,
                   acknowledged_at = None\<rparr>]
            else alerts db)
       \<and> production_lines (snd (acknowledge_alert env' conn' dbx aid)) = production_lines dbx"
proof -
  from assms(1,2) have stored: "store_to_database py env g db sd d p = (None, db')"
    by (simp add: store_to_database_def)
  from assms(2) obtain row where row: "sensor_row_of py sd d p = Inr row"
    and db': "db' = all_writes py (now env) row db"
    using store_try_Inr by blast
  from row assms(3,4) have "production_line row = line" "wafer_id row = wafer"
    "predicted_defect row = d" "defect_probability row = p"
    by (simp_all add: sensor_row_of_fields)
  with db' have "alerts db' =
           (if d = 1
            then alerts db @
                 [\<lparr>alert_id = fresh_alert_id (alerts db),
                   alert_production_line = line,
                   alert_wafer_id = wafer,
                   alert_message = ''Defect detected on '' @ py_format py line @ '' line'',
                   alert_defect_probability = p,
                   created_at = now env,
                   acknowledged = False,
                   acknowledged_at = None\<rparr>]
            else alerts db)"
    by (simp add: alerts_all_writes)
  with stored show ?thesis by (simp add: acknowledge_alert_tables)
qed

text \<open>
  The stub classifier at 0.92 raises one active alert for the Etching event; at 0.10 it
  raises none.
\<close>

theorem alert_iff_defect_witness:
  "db_conn (stub_gateway (Inr (92 / 100)) pipeline_features (Some Connection)) = Some Connection
   \<and> store_try py0 (server None) idle_lines (event ''Etching'' ''OK'') 1 (92 / 100) =
       Inr (all_writes py0 7 (event_row ''Etching'' ''OK'' 1 (92 / 100)) idle_lines)
   \<and> alerts (all_writes py0 7 (event_row ''Etching'' ''OK'' 1 (92 / 100)) idle_lines) =
       [\<lparr>alert_id = 1, alert_production_line = JStr ''Etching'', alert_wafer_id = JStr ''W1'',
         alert_message = ''Defect detected on Etching line'',
         alert_defect_probability = 92 / 100, created_at = 7,
         acknowledged = False, acknowledged_at = None\<rparr>]
   \<and> alerts (all_writes py0 7 (event_row ''Etching'' ''OK'' 0 (10 / 100)) idle_lines) = []"
proof -
  have c: "db_conn (stub_gateway (Inr (92 / 100)) pipeline_features (Some Connection)) = Some Connection"
    by (simp add: stub_gateway_def)
  have hi: "store_try py0 (server None) idle_lines (event ''Etching'' ''OK'') 1 (92 / 100) =
       Inr (all_writes py0 7 (event_row ''Etching'' ''OK'' 1 (92 / 100)) idle_lines)"
    by (rule event_store_try)
  have lo: "store_try py0 (server None) idle_lines (event ''Etching'' ''OK'') 0 (10 / 100) =
       Inr (all_writes py0 7 (event_row ''Etching'' ''OK'' 0 (10 / 100)) idle_lines)"
    by (rule event_store_try)
  have l: "subscript (event ''Etching'' ''OK'') ''production_line'' = Inr (JStr ''Etching'')"
    and w: "subscript (event ''Etching'' ''OK'') ''wafer_id'' = Inr (JStr ''W1'')"
    by (simp_all add: event_fields)
  from alert_iff_defect [OF c hi l w, THEN conjunct2, THEN conjunct1]
  have a1: "alerts (all_writes py0 7 (event_row ''Etching'' ''OK'' 1 (92 / 100)) idle_lines) =
       [\<lparr>alert_id = 1, alert_production_line = JStr ''Etching'', alert_wafer_id = JStr ''W1'',
         alert_message = ''Defect detected on Etching line'',
         alert_defect_probability = 92 / 100, created_at = 7,
         acknowledged = False, acknowledged_at = None\<rparr>]"
    by (simp add: idle_lines_def fresh_alert_id_def py_format_def server_def)
  from alert_iff_defect [OF c lo l w, THEN conjunct2, THEN conjunct1]
  have a0: "alerts (all_writes py0 7 (event_row ''Etching'' ''OK'' 0 (10 / 100)) idle_lines) = []"
    by (simp add: idle_lines_def)
  from c hi a1 a0 show ?thesis by blast
qed

section \<open>Running without a database connection\<close>

text \<open>
  C10. With no connection (\<^verbatim>\<open>db_conn\<close> is None), \<^verbatim>\<open>store_to_database\<close> returns without
  writing and without an exception, and \<^verbatim>\<open>on_message\<close> counts the event all the same:
  the global and the line's counter of processed events go up by one, and the defect
  counters go up when the prediction is 1. The tables are unchanged.
\<close>

theorem no_connection_still_counted:
  assumes "db_conn g = None"
    and "subscript sd ''production_line'' = Inr (JStr l)"
    and "by_line (stats g) l = Some ls"
    and "predict_defect g sd = (d, p)"
  shows "store_to_database py env g db sd d p = (None, db)
       \<and> on_message py env (g, db) (Inr sd) =
           (g\<lparr>stats := update_statistics (stats g) (JStr l) d\<rparr>, db)
       \<and> total_processed (update_statistics (stats g) (JStr l) d) = total_processed (stats g) + 1
       \<and> by_line (update_statistics (stats g) (JStr l) d) l =
           Some (ls\<lparr>line_total := line_total ls + 1,
                    line_defects := line_defects ls + (if d = 1 then 1 else 0)\<rparr>)
       \<and> defects_detected (update_statistics (stats g) (JStr l) d) =
           defects_detected (stats g) + (if d = 1 then 1 else 0)"
proof -
  from assms(1) have stored: "store_to_database py env g db sd d p = (None, db)"
    by (simp add: store_to_database_def)
  with assms(2,4) have handled: "on_message py env (g, db) (Inr sd) =
           (g\<lparr>stats := update_statistics (stats g) (JStr l) d\<rparr>, db)"
    by (simp add: on_message_def)
  from assms(3) have line: "by_line (update_statistics (stats g) (JStr l) d) l =
           Some (ls\<lparr>line_total := line_total ls + 1,
                    line_defects := line_defects ls + (if d = 1 then 1 else 0)\<rparr>)"
    by (simp add: update_statistics_by_line)
  from assms(3) have "defects_detected (update_statistics (stats g) (JStr l) d) =
           defects_detected (stats g) + (if d = 1 then 1 else 0)"
    by (simp add: update_statistics_def lookup_line_def Let_def)
  with stored handled line show ?thesis
    by (simp add: update_statistics_totals)
qed

text \<open>One defect event without a connection: counted, nothing stored.\<close>

theorem no_connection_still_counted_witness:
  "db_conn (stub_gateway (Inr (92 / 100)) pipeline_features None) = None
   \<and> snd (on_message py0 (server None)
            (stub_gateway (Inr (92 / 100)) pipeline_features None, idle_lines)
            (Inr (event ''Etching'' ''OK''))) = idle_lines
   \<and> by_line (stats (fst (on_message py0 (server None)
            (stub_gateway (Inr (92 / 100)) pipeline_features None, idle_lines)
            (Inr (event ''Etching'' ''OK''))))) ''Etching'' =
       Some \<lparr>line_total = 1, line_defects = 1\<rparr>"
proof -
  have c: "db_conn (stub_gateway (Inr (92 / 100)) pipeline_features None) = None"
    by (simp add: stub_gateway_def)
  have l: "subscript (event ''Etching'' ''OK'') ''production_line'' = Inr (JStr ''Etching'')"
    by (simp add: event_fields)
  have s: "by_line (stats (stub_gateway (Inr (92 / 100)) pipeline_features None)) ''Etching'' =
             Some \<lparr>line_total = 0, line_defects = 0\<rparr>"
    by (simp add: stub_gateway_def initial_stats_def)
  have p: "predict_defect (stub_gateway (Inr (92 / 100)) pipeline_features None)
             (event ''Etching'' ''OK'') = (1, 92 / 100)"
    by (simp add: stub_predict)
  note r = no_connection_still_counted [OF c l s p, of py0 "server None" idle_lines]
  from r have "snd (on_message py0 (server None)
            (stub_gateway (Inr (92 / 100)) pipeline_features None, idle_lines)
            (Inr (event ''Etching'' ''OK''))) = idle_lines"
    by simp
  moreover from r have "by_line (stats (fst (on_message py0 (server None)
            (stub_gateway (Inr (92 / 100)) pipeline_features None, idle_lines)
            (Inr (event ''Etching'' ''OK''))))) ''Etching'' =
       Some \<lparr>line_total = 1, line_defects = 1\<rparr>"
    by simp
  ultimately show ?thesis using c by blast
qed

section \<open>Facts about the handler and the stub\<close>

lemma on_message_gateway:
  "\<exists>st. fst (on_message py env (g, db) payload) = g\<lparr>stats := st\<rparr>"
proof -
  have keep: "g = g\<lparr>stats := stats g\<rparr>" by simp
  show ?thesis
    by (auto simp: on_message_def split: sum.splits prod.splits option.splits intro: keep)
qed

lemma run_gateway: "\<exists>st. fst (run py (g, db) msgs) = g\<lparr>stats := st\<rparr>"
proof (induction msgs arbitrary: g db)
  case Nil
  have "fst (run py (g, db) []) = g\<lparr>stats := stats g\<rparr>" by simp
  then show ?case by (rule exI)
next
  case (Cons m msgs)
  obtain env payload where m: "m = (env, payload)" by (cases m)
  obtain g1 db1 where s1: "on_message py env (g, db) payload = (g1, db1)"
    by (cases "on_message py env (g, db) payload")
  from on_message_gateway [of py env g db payload] s1 obtain st1 where
    g1: "g1 = g\<lparr>stats := st1\<rparr>" by auto
  from Cons.IH [of g1 db1] obtain st where "fst (run py (g1, db1) msgs) = g1\<lparr>stats := st\<rparr>"
    by blast
  with g1 m s1 show ?case by auto
qed

lemma predict_defect_success:
  assumes "feature_row g sd = Inr X" and "scaler g X = Inr X_scaled"
    and "model g X_scaled = Inr proba"
  shows "predict_defect g sd = (if proba \<ge> threshold g then 1 else 0, proba)"
  using assms by (simp add: predict_defect_def predict_try_def)

lemma default_persisted:
  assumes "predict_defect g sd = (0, 0)" and "db_conn g = Some c" and "\<not> db_fails env 0"
    and "sensor_row_of py sd 0 0 = Inr row"
  shows "on_message py env (g, db) (Inr sd) =
           (g\<lparr>stats := update_statistics (stats g) (production_line row) 0\<rparr>,
            all_writes py (now env) row db)"
proof -
  from assms(3,4) have "store_try py env db sd 0 0 = Inr (all_writes py (now env) row db)"
    by (simp add: store_try_commits)
  with assms(2) have "store_to_database py env g db sd 0 0 = (None, all_writes py (now env) row db)"
    by (simp add: store_to_database_def)
  moreover from assms(4) have "subscript sd ''production_line'' = Inr (production_line row)"
    by (rule sensor_row_of_fields)
  ultimately show ?thesis using assms(1) by (simp add: on_message_def)
qed

lemma default_row:
  assumes "sensor_row_of py sd 0 0 = Inr row"
  shows "sensor_data (all_writes py t row db) = sensor_data db @ [row]
       \<and> predicted_defect row = 0 \<and> defect_probability row = 0
       \<and> alerts (all_writes py t row db) = alerts db"
  using assms
  by (simp add: sensor_data_all_writes alerts_all_writes sensor_row_of_fields)

lemma feature_row_unknown:
  assumes "subscript sd ''production_line'' = Inr line"
    and "subscript sd ''join_status'' = Inr js"
    and "isl (encode g ''Tool_Type'' line) \<or> isl (encode g ''Join_Status'' js)"
  shows "\<exists>e. feature_row g sd = Inl e"
proof (cases "read_features sd numerical_features")
  case (Inl e)
  then show ?thesis by (simp add: feature_row_def)
next
  case (Inr numerical)
  show ?thesis
  proof (cases "encode g ''Tool_Type'' line")
    case (Inl e)
    with Inr assms(1) show ?thesis by (simp add: feature_row_def)
  next
    case (Inr code)
    with assms(3) obtain e where "encode g ''Join_Status'' js = Inl e"
      by (cases "encode g ''Join_Status'' js") auto
    with Inr \<open>read_features sd numerical_features = Inr numerical\<close> assms(1,2)
    show ?thesis by (simp add: feature_row_def)
  qed
qed

lemma stub_feature_row:
  "feature_row (stub_gateway out pipeline_features conn) (event ''Etching'' ''OK'') =
     Inr event_features"
  by (simp add: feature_row_def stub_gateway_def pipeline_features_def event_def
        numerical_features_def subscript_def encode_def stub_encoder_def event_features_def)

lemma stub_scaler: "scaler (stub_gateway out names conn) event_features = Inr zeros"
  by (simp add: stub_gateway_def event_features_def zeros_def)

lemma stub_model: "model (stub_gateway out names conn) xs = out"
  by (simp add: stub_gateway_def)

lemma stub_threshold: "threshold (stub_gateway out names conn) = 1 / 2"
  by (simp add: stub_gateway_def)

lemma stub_conn: "db_conn (stub_gateway out names conn) = conn"
  by (simp add: stub_gateway_def)

lemma stub_on_message:
  assumes "predict_defect g (event l js) = (d, p)" and "db_conn g = Some c"
  shows "on_message py0 (server None) (g, db) (Inr (event l js)) =
           (g\<lparr>stats := update_statistics (stats g) (JStr l) d\<rparr>,
            all_writes py0 7 (event_row l js d p) db)"
  using assms by (simp add: on_message_def store_to_database_def event_store_try event_fields)

lemma stub_by_line:
  "by_line (stats (stub_gateway out names conn)) ''Etching'' =
     Some \<lparr>line_total = 0, line_defects = 0\<rparr>"
  by (simp add: stub_gateway_def initial_stats_def)

section \<open>The decision rule\<close>

text \<open>
  C6. For an event whose feature row can be built and on which the scaler and the
  classifier return, the classifier's value being a probability, \<^verbatim>\<open>predict_defect\<close>
  returns that probability, which is in [0,1], and the decision is 1 exactly when the
  probability is at least the threshold. The threshold is the one of the loaded artifact
  and no run of the handler changes it.
\<close>

theorem decision_is_threshold_test:
  assumes "feature_row g sd = Inr X"
    and "scaler g X = Inr X_scaled"
    and "model g X_scaled = Inr proba"
    and "0 \<le> proba \<and> proba \<le> 1"
  shows "predict_defect g sd = (if proba \<ge> threshold g then 1 else 0, proba)
       \<and> 0 \<le> snd (predict_defect g sd) \<and> snd (predict_defect g sd) \<le> 1
       \<and> (fst (predict_defect g sd) = 1 \<longleftrightarrow> snd (predict_defect g sd) \<ge> threshold g)
       \<and> threshold (fst (run py (g, db) msgs)) = threshold g
       \<and> (\<exists>g0. EdgeGateway_init (Inr a) conn = Inr g0 \<and> threshold g0 = threshold a)"
proof -
  from assms(1-3) have p: "predict_defect g sd = (if proba \<ge> threshold g then 1 else 0, proba)"
    by (rule predict_defect_success)
  from run_gateway [of py g db msgs] obtain st where
    "fst (run py (g, db) msgs) = g\<lparr>stats := st\<rparr>" by blast
  then have t: "threshold (fst (run py (g, db) msgs)) = threshold g" by simp
  have i: "\<exists>g0. EdgeGateway_init (Inr a) conn = Inr g0 \<and> threshold g0 = threshold a"
    by (simp add: EdgeGateway_init_def)
  from p assms(4) t i show ?thesis by simp
qed

text \<open>The stub classifier at 0.92 with threshold 0.5: decision 1.\<close>

theorem decision_is_threshold_test_witness:
  "feature_row (stub_gateway (Inr (92 / 100)) pipeline_features None) (event ''Etching'' ''OK'')
     = Inr event_features
   \<and> scaler (stub_gateway (Inr (92 / 100)) pipeline_features None) event_features = Inr zeros
   \<and> model (stub_gateway (Inr (92 / 100)) pipeline_features None) zeros = Inr (92 / 100)
   \<and> (0::real) \<le> 92 / 100 \<and> (92 / 100 :: real) \<le> 1
   \<and> predict_defect (stub_gateway (Inr (92 / 100)) pipeline_features None)
        (event ''Etching'' ''OK'') = (1, 92 / 100)"
proof -
  have f: "feature_row (stub_gateway (Inr (92 / 100)) pipeline_features None)
             (event ''Etching'' ''OK'') = Inr event_features"
    by (rule stub_feature_row)
  have s: "scaler (stub_gateway (Inr (92 / 100)) pipeline_features None) event_features = Inr zeros"
    by (rule stub_scaler)
  have m: "model (stub_gateway (Inr (92 / 100)) pipeline_features None) zeros = Inr (92 / 100)"
    by (rule stub_model)
  have r: "(0::real) \<le> 92 / 100 \<and> (92 / 100 :: real) \<le> 1" by simp
  from decision_is_threshold_test [OF f s m r, THEN conjunct1]
  have "predict_defect (stub_gateway (Inr (92 / 100)) pipeline_features None)
        (event ''Etching'' ''OK'') = (1, 92 / 100)"
    by (simp add: stub_threshold)
  with f s m r show ?thesis by blast
qed

section \<open>A failing classifier\<close>




section \<open>A category outside the vocabulary\<close>

text \<open>
  C3, as stated, fails: the join status \<open>Bad\<close> is not a class of the stub encoder, the
  encoder raises, and \<^verbatim>\<open>predict_defect\<close> returns (0, 0.0) although the classifier would
  have said 0.92; the event is stored as a row without defect and counted for its line.
\<close>

theorem unknown_category_counterexample:
  "stub_encoder [''Failed'', ''OK''] (JStr ''Bad'') = Inl ValueError
   \<and> predict_defect (stub_gateway (Inr (92 / 100)) pipeline_features (Some Connection))
       (event ''Etching'' ''Bad'') = (0, 0)
   \<and> sensor_data (snd (on_message py0 (server None)
        (stub_gateway (Inr (92 / 100)) pipeline_features (Some Connection), idle_lines)
        (Inr (event ''Etching'' ''Bad'')))) = [event_row ''Etching'' ''Bad'' 0 0]
   \<and> by_line (stats (fst (on_message py0 (server None)
        (stub_gateway (Inr (92 / 100)) pipeline_features (Some Connection), idle_lines)
        (Inr (event ''Etching'' ''Bad''))))) ''Etching'' = Some \<lparr>line_total = 1, line_defects = 0\<rparr>"
proof -
  have t: "stub_encoder [''Failed'', ''OK''] (JStr ''Bad'') = Inl ValueError"
    by (simp add: stub_encoder_def)
  have p: "predict_defect (stub_gateway (Inr (92 / 100)) pipeline_features (Some Connection))
       (event ''Etching'' ''Bad'') = (0, 0)"
    by (simp add: predict_defect_def predict_try_def feature_row_def stub_gateway_def
          pipeline_features_def event_def numerical_features_def subscript_def encode_def
          stub_encoder_def)
  have c: "db_conn (stub_gateway (Inr (92 / 100)) pipeline_features (Some Connection)) =
             Some Connection"
    by (rule stub_conn)
  note m = stub_on_message [OF p c, of idle_lines]
  have "sensor_data (snd (on_message py0 (server None)
        (stub_gateway (Inr (92 / 100)) pipeline_features (Some Connection), idle_lines)
        (Inr (event ''Etching'' ''Bad'')))) = [event_row ''Etching'' ''Bad'' 0 0]"
    unfolding m by (simp add: sensor_data_all_writes idle_lines_def)
  moreover have "by_line (stats (fst (on_message py0 (server None)
        (stub_gateway (Inr (92 / 100)) pipeline_features (Some Connection), idle_lines)
        (Inr (event ''Etching'' ''Bad''))))) ''Etching'' = Some \<lparr>line_total = 1, line_defects = 0\<rparr>"
    unfolding m by (simp add: update_statistics_by_line [OF stub_by_line])
  ultimately show ?thesis using t p by blast
qed

text \<open>
  C3, amended. When the label encoder of the production line or of the join status
  raises on the value of an event, as it does for a label outside its vocabulary, the
  exception is caught inside \<^verbatim>\<open>predict_defect\<close>, which returns (0, 0.0), and the handler
  goes on with that result: with a connection, no failure of the database and a payload
  whose row can be built, the tables after the message have the row of the event
  appended, with predicted defect 0 and probability 0, and the alerts they had, and the
  global counter of processed events has gone up by one.
\<close>

theorem unknown_category_defaults:
  assumes "subscript sd ''production_line'' = Inr line"
    and "subscript sd ''join_status'' = Inr js"
    and "map_of (label_encoders g) ''Tool_Type'' = Some tool_encoder"
    and "map_of (label_encoders g) ''Join_Status'' = Some join_encoder"
    and "isl (tool_encoder line) \<or> isl (join_encoder js)"
    and "db_conn g = Some c"
    and "\<not> db_fails env 0"
    and "sensor_row_of py sd 0 0 = Inr row"
  shows "predict_defect g sd = (0, 0)
       \<and> on_message py env (g, db) (Inr sd) =
           (g\<lparr>stats := update_statistics (stats g) line 0\<rparr>,
            all_writes py (now env) row db)
       \<and> sensor_data (snd (on_message py env (g, db) (Inr sd))) = sensor_data db @ [row]
       \<and> predicted_defect row = 0 \<and> defect_probability row = 0
       \<and> alerts (snd (on_message py env (g, db) (Inr sd))) = alerts db
       \<and> total_processed (stats (fst (on_message py env (g, db) (Inr sd)))) =
           total_processed (stats g) + 1"
proof -
  from assms(3-5) have "isl (encode g ''Tool_Type'' line) \<or> isl (encode g ''Join_Status'' js)"
    by (simp add: encode_def)
  with feature_row_unknown [OF assms(1,2)] obtain e where "feature_row g sd = Inl e"
    by blast
  then have p: "predict_defect g sd = (0, 0)"
    by (simp add: predict_defect_def predict_try_def)
  from assms(8) assms(1) have l: "production_line row = line"
    by (simp add: sensor_row_of_fields)
  from default_persisted [OF p assms(6-8)] l
  have m: "on_message py env (g, db) (Inr sd) =
           (g\<lparr>stats := update_statistics (stats g) line 0\<rparr>,
            all_writes py (now env) row db)"
    by simp
  from default_row [OF assms(8)] p show ?thesis
    unfolding m by (simp add: update_statistics_totals)
qed

text \<open>The amended statement at the join status \<open>Bad\<close>.\<close>

theorem unknown_category_defaults_witness:
  "isl (stub_encoder [''Failed'', ''OK''] (JStr ''Bad''))
   \<and> \<not> db_fails (server None) 0
   \<and> sensor_row_of py0 (event ''Etching'' ''Bad'') 0 0 = Inr (event_row ''Etching'' ''Bad'' 0 0)
   \<and> predict_defect (stub_gateway (Inr (92 / 100)) pipeline_features (Some Connection))
       (event ''Etching'' ''Bad'') = (0, 0)
   \<and> sensor_data (snd (on_message py0 (server None)
        (stub_gateway (Inr (92 / 100)) pipeline_features (Some Connection), idle_lines)
        (Inr (event ''Etching'' ''Bad'')))) = [event_row ''Etching'' ''Bad'' 0 0]
   \<and> alerts (snd (on_message py0 (server None)
        (stub_gateway (Inr (92 / 100)) pipeline_features (Some Connection), idle_lines)
        (Inr (event ''Etching'' ''Bad'')))) = []"
proof -
  have l: "subscript (event ''Etching'' ''Bad'') ''production_line'' = Inr (JStr ''Etching'')"
    and j: "subscript (event ''Etching'' ''Bad'') ''join_status'' = Inr (JStr ''Bad'')"
    by (simp_all add: event_fields)
  have t: "map_of (label_encoders (stub_gateway (Inr (92 / 100)) pipeline_features (Some Connection)))
             ''Tool_Type'' = Some (stub_encoder [''Deposition'', ''Etching'', ''Lithography''])"
    and e: "map_of (label_encoders (stub_gateway (Inr (92 / 100)) pipeline_features (Some Connection)))
             ''Join_Status'' = Some (stub_encoder [''Failed'', ''OK''])"
    by (simp_all add: stub_gateway_def)
  have u: "isl (stub_encoder [''Failed'', ''OK''] (JStr ''Bad''))"
    by (simp add: stub_encoder_def)
  then have u': "isl (stub_encoder [''Deposition'', ''Etching'', ''Lithography''] (JStr ''Etching''))
      \<or> isl (stub_encoder [''Failed'', ''OK''] (JStr ''Bad''))" by blast
  have c: "db_conn (stub_gateway (Inr (92 / 100)) pipeline_features (Some Connection)) =
             Some Connection"
    by (rule stub_conn)
  have r: "sensor_row_of py0 (event ''Etching'' ''Bad'') 0 0 = Inr (event_row ''Etching'' ''Bad'' 0 0)"
    by (rule event_row_of)
  note th = unknown_category_defaults [OF l j t e u' c server_ok r, of idle_lines]
  from th have "predict_defect (stub_gateway (Inr (92 / 100)) pipeline_features (Some Connection))
       (event ''Etching'' ''Bad'') = (0, 0)"
    by blast
  moreover have "sensor_data (snd (on_message py0 (server None)
        (stub_gateway (Inr (92 / 100)) pipeline_features (Some Connection), idle_lines)
        (Inr (event ''Etching'' ''Bad'')))) = [event_row ''Etching'' ''Bad'' 0 0]"
    unfolding th [THEN conjunct2, THEN conjunct2, THEN conjunct1]
    by (simp add: idle_lines_def)
  moreover have "alerts (snd (on_message py0 (server None)
        (stub_gateway (Inr (92 / 100)) pipeline_features (Some Connection), idle_lines)
        (Inr (event ''Etching'' ''Bad'')))) = []"
    unfolding th [THEN conjunct2, THEN conjunct2, THEN conjunct2, THEN conjunct2,
                  THEN conjunct2, THEN conjunct1]
    by (simp add: idle_lines_def)
  ultimately show ?thesis using u r server_ok [of 0] by blast
qed

section \<open>Line state\<close>

lemma on_message_persisted:
  assumes "predict_defect g sd = (d, p)" and "db_conn g = Some c" and "\<not> db_fails env d"
    and "sensor_row_of py sd d p = Inr row"
  shows "snd (on_message py env (g, db) (Inr sd)) = all_writes py (now env) row db"
  using assms by (simp add: on_message_tables store_to_database_result)

lemma stub_predict_polishing:
  "predict_defect (stub_gateway out pipeline_features conn) (event ''Polishing'' ''OK'') = (0, 0)"
  by (simp add: predict_defect_def predict_try_def feature_row_def stub_gateway_def
        pipeline_features_def event_def numerical_features_def subscript_def encode_def
        stub_encoder_def)

text \<open>
  C9, as stated, fails: the line-state write is an UPDATE, which changes existing rows
  only. An event for the line \<open>Polishing\<close>, which has no row in \<^verbatim>\<open>production_lines\<close>, is
  persisted (its row is in \<^verbatim>\<open>sensor_data\<close>), yet no line is set to Running: all three
  rows are still Idle, and no row for the event's line exists.
\<close>

theorem line_state_counterexample:
  "sensor_data (snd (on_message py0 (server None)
        (stub_gateway (Inr (92 / 100)) pipeline_features (Some Connection), idle_lines)
        (Inr (event ''Polishing'' ''OK'')))) = [event_row ''Polishing'' ''OK'' 0 0]
   \<and> map line_name (production_lines (snd (on_message py0 (server None)
        (stub_gateway (Inr (92 / 100)) pipeline_features (Some Connection), idle_lines)
        (Inr (event ''Polishing'' ''OK''))))) = [''Deposition'', ''Etching'', ''Lithography'']
   \<and> map status (production_lines (snd (on_message py0 (server None)
        (stub_gateway (Inr (92 / 100)) pipeline_features (Some Connection), idle_lines)
        (Inr (event ''Polishing'' ''OK''))))) = [''Idle'', ''Idle'', ''Idle'']"
proof -
  have c: "db_conn (stub_gateway (Inr (92 / 100)) pipeline_features (Some Connection)) =
             Some Connection"
    by (rule stub_conn)
  note m = stub_on_message [OF stub_predict_polishing c, of idle_lines]
  show ?thesis
    unfolding m
    by (simp add: sensor_data_all_writes production_lines_all_writes idle_lines_def
          idle_line_def event_row_def)
qed

text \<open>
  C9, amended. For every successfully persisted event (a connection, no failing
  operation, a row that can be built), the tables after the message have the row of the
  event, which carries its production line and wafer id, and the line-state write has
  updated the existing rows of \<^verbatim>\<open>production_lines\<close>: every row named as the event's
  production line has status Running, the event's wafer id as current wafer and the
  current time as last update, every other row is as before, and no row is added, so an
  event for a line without a row leaves the table as it was. Whatever a message does, a
  row of \<^verbatim>\<open>production_lines\<close> after it has the status it had or the status Running: the
  pipeline writes no other status, also when it raises an alert.
\<close>

theorem line_state_update:
  assumes "predict_defect g sd = (d, p)"
    and "db_conn g = Some c"
    and "\<not> db_fails env d"
    and "sensor_row_of py sd d p = Inr row"
  shows "subscript sd ''production_line'' = Inr (production_line row)
       \<and> subscript sd ''wafer_id'' = Inr (wafer_id row)
       \<and> sensor_data (snd (on_message py env (g, db) (Inr sd))) = sensor_data db @ [row]
       \<and> production_lines (snd (on_message py env (g, db) (Inr sd))) =
           map (\<lambda>r. if JStr (line_name r) = production_line row
                     then r\<lparr>status := ''Running'', current_wafer_id := wafer_id row,
                            last_updated := now env\<rparr>
                     else r)
               (production_lines db)
       \<and> (production_line row \<notin> JStr ` line_name ` set (production_lines db) \<longrightarrow>
            production_lines (snd (on_message py env (g, db) (Inr sd))) = production_lines db)
       \<and> list_all2 (\<lambda>r r'. line_name r' = line_name r \<and>
                               (status r' = status r \<or> status r' = ''Running''))
             (production_lines dbx)
             (production_lines (snd (on_message py' env' (g', dbx) payload)))"
proof -
  note m = on_message_persisted [OF assms, of db]
  from assms(4) have fields: "subscript sd ''production_line'' = Inr (production_line row)"
    "subscript sd ''wafer_id'' = Inr (wafer_id row)"
    by (rule sensor_row_of_fields)+
  have rows: "sensor_data (snd (on_message py env (g, db) (Inr sd))) = sensor_data db @ [row]"
    unfolding m by (rule sensor_data_all_writes)
  have lines: "production_lines (snd (on_message py env (g, db) (Inr sd))) =
           map (\<lambda>r. if JStr (line_name r) = production_line row
                     then r\<lparr>status := ''Running'', current_wafer_id := wafer_id row,
                            last_updated := now env\<rparr>
                     else r)
               (production_lines db)"
    unfolding m by (rule production_lines_all_writes)
  have absent: "production_line row \<notin> JStr ` line_name ` set (production_lines db) \<longrightarrow>
            production_lines (snd (on_message py env (g, db) (Inr sd))) = production_lines db"
  proof
    assume "production_line row \<notin> JStr ` line_name ` set (production_lines db)"
    then have "map (\<lambda>r. if JStr (line_name r) = production_line row
                     then r\<lparr>status := ''Running'', current_wafer_id := wafer_id row,
                            last_updated := now env\<rparr>
                     else r)
               (production_lines db) = production_lines db"
      by (intro map_idI) (auto simp: image_iff)
    with lines show "production_lines (snd (on_message py env (g, db) (Inr sd))) =
        production_lines db"
      by simp
  qed
  have frame: "list_all2 (\<lambda>r r'. line_name r' = line_name r \<and>
                               (status r' = status r \<or> status r' = ''Running''))
             (production_lines dbx)
             (production_lines (snd (on_message py' env' (g', dbx) payload)))"
    by (cases payload) (simp_all add: on_message_tables store_to_database_status status_kept)
  from fields rows lines absent frame show ?thesis by blast
qed

text \<open>The Etching event at 0.92 moves the Etching line from Idle to Running.\<close>

theorem line_state_update_witness:
  "predict_defect (stub_gateway (Inr (92 / 100)) pipeline_features (Some Connection))
     (event ''Etching'' ''OK'') = (1, 92 / 100)
   \<and> db_conn (stub_gateway (Inr (92 / 100)) pipeline_features (Some Connection)) = Some Connection
   \<and> \<not> db_fails (server None) 1
   \<and> sensor_row_of py0 (event ''Etching'' ''OK'') 1 (92 / 100) =
       Inr (event_row ''Etching'' ''OK'' 1 (92 / 100))
   \<and> production_lines (snd (on_message py0 (server None)
        (stub_gateway (Inr (92 / 100)) pipeline_features (Some Connection), idle_lines)
        (Inr (event ''Etching'' ''OK'')))) =
       [idle_line ''Deposition'',
        \<lparr>line_name = ''Etching'', status = ''Running'', current_wafer_id = JStr ''W1'',
         last_updated = 7\<rparr>,
        idle_line ''Lithography'']"
proof -
  have p: "predict_defect (stub_gateway (Inr (92 / 100)) pipeline_features (Some Connection))
     (event ''Etching'' ''OK'') = (1, 92 / 100)"
    by (simp add: stub_predict)
  have c: "db_conn (stub_gateway (Inr (92 / 100)) pipeline_features (Some Connection)) =
             Some Connection"
    by (rule stub_conn)
  have f: "\<not> db_fails (server None) 1"
    by (rule server_ok)
  have r: "sensor_row_of py0 (event ''Etching'' ''OK'') 1 (92 / 100) =
       Inr (event_row ''Etching'' ''OK'' 1 (92 / 100))"
    by (rule event_row_of)
  note th = line_state_update [OF p c f r, of idle_lines]
  have "production_lines (snd (on_message py0 (server None)
        (stub_gateway (Inr (92 / 100)) pipeline_features (Some Connection), idle_lines)
        (Inr (event ''Etching'' ''OK'')))) =
       [idle_line ''Deposition'',
        \<lparr>line_name = ''Etching'', status = ''Running'', current_wafer_id = JStr ''W1'',
         last_updated = 7\<rparr>,
        idle_line ''Lithography'']"
    unfolding th [THEN conjunct2, THEN conjunct2, THEN conjunct2, THEN conjunct1]
    by (simp add: idle_lines_def idle_line_def server_def event_row_def)
  with p c f r show ?thesis by blast
qed

section \<open>Facts about feature names, acknowledgment and counting\<close>

lemma read_features_keys:
  "read_features sd kvs = Inr fs \<Longrightarrow> map fst fs = map fst kvs"
proof (induction kvs arbitrary: fs)
  case Nil
  then show ?case by simp
next
  case (Cons kv kvs)
  obtain name key where kv: "kv = (name, key)" by (cases kv)
  from Cons.prems kv obtain v fs' where "subscript sd key = Inr v"
    and rest: "read_features sd kvs = Inr fs'" and fs: "fs = (name, Raw v) # fs'"
    by (auto simp: and_then_eq_Inr)
  from Cons.IH [OF rest] fs kv show ?case by simp
qed

lemma select_columns_names:
  "select_columns features names = Inr X \<Longrightarrow> set names \<subseteq> fst ` set features"
proof (induction names arbitrary: X)
  case Nil
  then show ?case by simp
next
  case (Cons n ns)
  from Cons.prems obtain x xs where x: "map_of features n = Some x"
    and rest: "select_columns features ns = Inr xs"
    by (auto simp: and_then_eq_Inr split: option.splits)
  from x have "n \<in> fst ` set features"
    by (metis map_of_SomeD fst_conv image_eqI)
  with Cons.IH [OF rest] show ?case by simp
qed

lemma feature_row_names:
  assumes "feature_row g sd = Inr X"
  shows "set (feature_names g) \<subseteq> set pipeline_features"
proof -
  from assms obtain numerical tool_code join_code where
    num: "read_features sd numerical_features = Inr numerical" and
    sel: "select_columns
            (numerical @ [(''Tool_Type'', Code tool_code), (''Join_Status'', Code join_code)])
            (feature_names g) = Inr X"
    unfolding feature_row_def and_then_eq_Inr by blast
  from read_features_keys [OF num] have
    "map fst (numerical @ [(''Tool_Type'', Code tool_code), (''Join_Status'', Code join_code)])
       = pipeline_features"
    by (simp add: pipeline_features_def)
  then have "fst ` set (numerical @ [(''Tool_Type'', Code tool_code), (''Join_Status'', Code join_code)])
       = set pipeline_features"
    by (metis set_map)
  with select_columns_names [OF sel] show ?thesis by simp
qed

lemma stub_init:
  "EdgeGateway_init (Inr (stub_artifact out names)) conn = Inr (stub_gateway out names conn)"
  by (simp add: EdgeGateway_init_def stub_artifact_def stub_gateway_def)

lemma set_acknowledged_absent:
  "aid \<notin> alert_id ` set (alerts db) \<Longrightarrow> set_acknowledged t aid db = db"
proof -
  assume "aid \<notin> alert_id ` set (alerts db)"
  then have "map (\<lambda>a. if alert_id a = aid
                     then a\<lparr>acknowledged := True, acknowledged_at := Some t\<rparr> else a) (alerts db)
             = alerts db"
    by (intro map_idI) auto
  then show ?thesis by (simp add: set_acknowledged_def)
qed

lemma set_acknowledged_keeps:
  "list_all2 (\<lambda>a a'. if alert_id a = aid \<and> acknowledged a
                      then a' = a\<lparr>acknowledged_at := Some t\<rparr>
                      else alert_id a = aid \<or> a' = a)
     as (map (\<lambda>a. if alert_id a = aid
                   then a\<lparr>acknowledged := True, acknowledged_at := Some t\<rparr> else a) as)"
  by (induction as) simp_all

lemma on_message_by_line:
  assumes "by_line (stats g) l = Some ls"
  shows "by_line (stats (fst (on_message py env (g, db) payload))) l =
           Some (ls\<lparr>line_total := line_total ls +
                      (case reaches_statistics py env (g, db) payload of
                         None \<Rightarrow> 0
                       | Some (line, prediction) \<Rightarrow> if line = JStr l then 1 else 0),
                    line_defects := line_defects ls +
                      (case reaches_statistics py env (g, db) payload of
                         None \<Rightarrow> 0
                       | Some (line, prediction) \<Rightarrow>
                           if line = JStr l \<and> prediction = 1 then 1 else 0)\<rparr>)"
proof (cases "reaches_statistics py env (g, db) payload")
  case None
  then have "fst (on_message py env (g, db) payload) = g"
    by (auto simp: on_message_def reaches_statistics_def
          split: sum.splits prod.splits option.splits)
  with None assms show ?thesis by simp
next
  case (Some r)
  obtain line d where r: "r = (line, d)" by (cases r)
  with Some have "stats (fst (on_message py env (g, db) payload)) =
      update_statistics (stats g) line d"
    by (auto simp: on_message_def reaches_statistics_def
          split: sum.splits prod.splits option.splits)
  with Some r update_statistics_by_line [OF assms, of line d] show ?thesis by simp
qed

lemma store_to_database_returns:
  "rollback_raises env = False \<Longrightarrow> fst (store_to_database py env g db sd d p) = None"
  by (simp add: store_to_database_def split: option.splits sum.splits)

lemma stub_handled:
  assumes "predict_defect g (event l js) = (d, p)" and "rollback_raises env = False"
  shows "reaches_statistics py env (g, db) (Inr (event l js)) = Some (JStr l, d)"
    and "on_message py env (g, db) (Inr (event l js)) =
           (g\<lparr>stats := update_statistics (stats g) (JStr l) d\<rparr>,
            snd (store_to_database py env g db (event l js) d p))"
  using assms store_to_database_returns [OF assms(2), of py g db "event l js" d p]
  by (auto simp: reaches_statistics_def on_message_def event_fields
        split: prod.splits option.splits)

lemma server_no_raise: "rollback_raises (server f) = False"
  by (simp add: server_def)

lemma failing_insert: "db_fails (server (Some InsertSensor)) d"
  by (simp add: db_fails_def server_def)

section \<open>Feature names that do not match\<close>

text \<open>
  C8, as stated, fails: with the feature names \<open>Chamber_Temperature\<close> and \<open>Humidity\<close>,
  the second of which the pipeline never builds, the constructor returns a gateway, and
  the mismatch shows only when an event is predicted, as the default (0, 0.0).
\<close>

theorem feature_mismatch_counterexample:
  "\<not> set [''Chamber_Temperature'', ''Humidity''] \<subseteq> set pipeline_features
   \<and> EdgeGateway_init (Inr (stub_artifact (Inr (92 / 100)) [''Chamber_Temperature'', ''Humidity'']))
        (Some Connection)
       = Inr (stub_gateway (Inr (92 / 100)) [''Chamber_Temperature'', ''Humidity''] (Some Connection))
   \<and> predict_defect (stub_gateway (Inr (92 / 100)) [''Chamber_Temperature'', ''Humidity'']
        (Some Connection)) (event ''Etching'' ''OK'') = (0, 0)"
proof -
  have "predict_defect (stub_gateway (Inr (92 / 100)) [''Chamber_Temperature'', ''Humidity'']
        (Some Connection)) (event ''Etching'' ''OK'') = (0, 0)"
    by (simp add: predict_defect_def predict_try_def feature_row_def stub_gateway_def
          event_def numerical_features_def subscript_def encode_def stub_encoder_def)
  moreover have "\<not> set [''Chamber_Temperature'', ''Humidity''] \<subseteq> set pipeline_features"
    by (simp add: pipeline_features_def numerical_features_def)
  ultimately show ?thesis by (simp add: stub_init)
qed

text \<open>
  C8, amended. The constructor checks nothing about the feature names: it returns a
  gateway with the names of the artifact whatever they are, and a name among them that
  the pipeline does not build makes \<^verbatim>\<open>predict_defect\<close> return the default (0, 0.0) on
  every event, the exception being handled per event inside \<^verbatim>\<open>predict_defect\<close>.
\<close>

theorem feature_mismatch_is_per_event:
  assumes "\<not> set (feature_names a) \<subseteq> set pipeline_features"
  shows "\<exists>g. EdgeGateway_init (Inr a) conn = Inr g \<and> feature_names g = feature_names a
             \<and> predict_defect g sd = (0, 0)"
proof -
  obtain g where g: "EdgeGateway_init (Inr a) conn = Inr g" and n: "feature_names g = feature_names a"
    by (simp add: EdgeGateway_init_def)
  from assms n feature_row_names [of g sd] obtain e where "feature_row g sd = Inl e"
    by (cases "feature_row g sd") auto
  then have "predict_defect g sd = (0, 0)"
    by (simp add: predict_defect_def predict_try_def)
  with g n show ?thesis by blast
qed

text \<open>The amended statement at the single feature name \<open>Wafer_Age\<close>.\<close>

theorem feature_mismatch_is_per_event_witness:
  "\<not> set (feature_names (stub_artifact (Inr (10 / 100)) [''Wafer_Age''])) \<subseteq> set pipeline_features
   \<and> predict_defect (stub_gateway (Inr (10 / 100)) [''Wafer_Age''] None)
       (event ''Deposition'' ''OK'') = (0, 0)"
proof -
  have m: "\<not> set (feature_names (stub_artifact (Inr (10 / 100)) [''Wafer_Age'']))
             \<subseteq> set pipeline_features"
    by (simp add: stub_artifact_def pipeline_features_def numerical_features_def)
  from feature_mismatch_is_per_event [OF m, of None "event ''Deposition'' ''OK''"]
  have "predict_defect (stub_gateway (Inr (10 / 100)) [''Wafer_Age''] None)
       (event ''Deposition'' ''OK'') = (0, 0)"
    by (simp add: stub_init)
  with m show ?thesis by blast
qed

section \<open>Acknowledging twice, or nothing\<close>

text \<open>
  C7, as stated, fails: on a store whose only alert has id 1 and was acknowledged at
  time 5, acknowledging id 8 and acknowledging id 1 both return True, and the second
  sets the acknowledgment time of alert 1 to the current time 7.
\<close>

theorem acknowledge_counterexample:
  "fst (acknowledge_alert (server None) (Some Connection) acked_alerts 8) = Inr True
   \<and> fst (acknowledge_alert (server None) (Some Connection) acked_alerts 1) = Inr True
   \<and> map acknowledged_at (alerts acked_alerts) = [Some 5]
   \<and> map acknowledged_at
        (alerts (snd (acknowledge_alert (server None) (Some Connection) acked_alerts 1))) = [Some 7]"
  by (simp add: acknowledge_alert_def db_op_def server_def set_acknowledged_def acked_alerts_def)

text \<open>
  C7, amended. When no database operation fails, \<^verbatim>\<open>acknowledge_alert\<close> returns True
  for every id, and the tables afterwards are the tables before with one change: every
  alert of that id is acknowledged with the current time as its acknowledgment time,
  all its other columns as they were. So for an id that no alert has the tables are
  unchanged, and an alert already acknowledged stays acknowledged and differs from
  before in its acknowledgment time only. The alerts of another id and the other two
  tables are unchanged.
\<close>

theorem acknowledge_reports_success:
  assumes "fail_at env \<noteq> Some Cursor" and "fail_at env \<noteq> Some UpdateAlert"
    and "fail_at env \<noteq> Some Commit"
  shows "fst (acknowledge_alert env (Some c) db aid) = Inr True
       \<and> alerts (snd (acknowledge_alert env (Some c) db aid)) =
           map (\<lambda>a. if alert_id a = aid
                     then a\<lparr>acknowledged := True, acknowledged_at := Some (now env)\<rparr>
                     else a)
               (alerts db)
       \<and> (aid \<notin> alert_id ` set (alerts db) \<longrightarrow> snd (acknowledge_alert env (Some c) db aid) = db)
       \<and> list_all2 (\<lambda>a a'. if alert_id a = aid \<and> acknowledged a
                            then a' = a\<lparr>acknowledged_at := Some (now env)\<rparr>
                            else alert_id a = aid \<or> a' = a)
            (alerts db) (alerts (snd (acknowledge_alert env (Some c) db aid)))
       \<and> production_lines (snd (acknowledge_alert env (Some c) db aid)) = production_lines db
       \<and> sensor_data (snd (acknowledge_alert env (Some c) db aid)) = sensor_data db"
proof -
  from assms have r: "acknowledge_alert env (Some c) db aid =
      (Inr True, set_acknowledged (now env) aid db)"
    by (simp add: acknowledge_alert_def db_op_def)
  have absent: "aid \<notin> alert_id ` set (alerts db) \<longrightarrow>
      snd (acknowledge_alert env (Some c) db aid) = db"
    by (simp add: r set_acknowledged_absent)
  have kept: "list_all2 (\<lambda>a a'. if alert_id a = aid \<and> acknowledged a
                            then a' = a\<lparr>acknowledged_at := Some (now env)\<rparr>
                            else alert_id a = aid \<or> a' = a)
            (alerts db) (alerts (snd (acknowledge_alert env (Some c) db aid)))"
    by (simp add: r set_acknowledged_def set_acknowledged_keeps)
  from r absent kept show ?thesis
    by (simp add: set_acknowledged_def)
qed

text \<open>The amended statement on the store with one acknowledged alert.\<close>

theorem acknowledge_reports_success_witness:
  "fail_at (server None) \<noteq> Some Cursor \<and> fail_at (server None) \<noteq> Some UpdateAlert
   \<and> fail_at (server None) \<noteq> Some Commit
   \<and> 8 \<notin> alert_id ` set (alerts acked_alerts)
   \<and> acknowledge_alert (server None) (Some Connection) acked_alerts 8 = (Inr True, acked_alerts)
   \<and> alerts (snd (acknowledge_alert (server None) (Some Connection) acked_alerts 1)) =
       [\<lparr>alert_id = 1, alert_production_line = JStr ''Etching'',
         alert_wafer_id = JStr ''W1'',
         alert_message = ''Defect detected on Etching line'',
         alert_defect_probability = 92 / 100, created_at = 3,
         acknowledged = True, acknowledged_at = Some 7\<rparr>]"
proof -
  have f: "fail_at (server None) \<noteq> Some Cursor" "fail_at (server None) \<noteq> Some UpdateAlert"
    "fail_at (server None) \<noteq> Some Commit"
    by (simp_all add: server_def)
  have a: "8 \<notin> alert_id ` set (alerts acked_alerts)"
    by (simp add: acked_alerts_def)
  from acknowledge_reports_success [OF f, of Connection acked_alerts 8] a
  have one: "acknowledge_alert (server None) (Some Connection) acked_alerts 8 = (Inr True, acked_alerts)"
    by (simp add: prod_eq_iff)
  have "alerts (snd (acknowledge_alert (server None) (Some Connection) acked_alerts 1)) =
       [\<lparr>alert_id = 1, alert_production_line = JStr ''Etching'',
         alert_wafer_id = JStr ''W1'',
         alert_message = ''Defect detected on Etching line'',
         alert_defect_probability = 92 / 100, created_at = 3,
         acknowledged = True, acknowledged_at = Some 7\<rparr>]"
    unfolding acknowledge_reports_success [OF f, of Connection acked_alerts 1,
                THEN conjunct2, THEN conjunct1]
    by (simp add: acked_alerts_def server_def)
  with f a one show ?thesis by blast
qed

section \<open>What the counters count\<close>

text \<open>
  C4, as stated, fails: the INSERT of the only event of a run fails, the transaction is
  rolled back and no row is stored, yet the counters of the Etching line show one
  processed event and one defect.
\<close>

theorem counters_counterexample:
  "sensor_data (snd (run py0
      (stub_gateway (Inr (92 / 100)) pipeline_features (Some Connection), idle_lines)
      [(server (Some InsertSensor), Inr (event ''Etching'' ''OK''))])) = []
   \<and> by_line (stats (fst (run py0
      (stub_gateway (Inr (92 / 100)) pipeline_features (Some Connection), idle_lines)
      [(server (Some InsertSensor), Inr (event ''Etching'' ''OK''))]))) ''Etching''
     = Some \<lparr>line_total = 1, line_defects = 1\<rparr>"
proof -
  have p: "predict_defect (stub_gateway (Inr (92 / 100)) pipeline_features (Some Connection))
             (event ''Etching'' ''OK'') = (1, 92 / 100)"
    by (simp add: stub_predict)
  note m = stub_handled(2) [OF p server_no_raise, of py0 "Some InsertSensor" idle_lines]
  have "sensor_data (snd (run py0
      (stub_gateway (Inr (92 / 100)) pipeline_features (Some Connection), idle_lines)
      [(server (Some InsertSensor), Inr (event ''Etching'' ''OK''))])) = []"
    unfolding run.simps m
    by (simp add: store_to_database_result failing_insert idle_lines_def)
  moreover have "by_line (stats (fst (run py0
      (stub_gateway (Inr (92 / 100)) pipeline_features (Some Connection), idle_lines)
      [(server (Some InsertSensor), Inr (event ''Etching'' ''OK''))]))) ''Etching''
     = Some \<lparr>line_total = 1, line_defects = 1\<rparr>"
    unfolding run.simps m
    by (simp add: update_statistics_by_line [OF stub_by_line])
  ultimately show ?thesis by blast
qed

text \<open>
  C4, amended. For every line of the statistics and every run, the counter of processed
  events of the line has grown by the number of messages of the run that reached the
  statistics block with that line (they decoded, \<^verbatim>\<open>store_to_database\<close> returned, whether
  it committed, rolled back or had no connection, and the prediction may be the default
  after an error), and the counter of defects by the number of those with prediction 1.
\<close>

theorem counters_count_handled_events:
  assumes "by_line (stats g) l = Some ls"
  shows "by_line (stats (fst (run py (g, db) msgs))) l =
           Some (ls\<lparr>line_total := line_total ls + processed py (g, db) msgs l,
                    line_defects := line_defects ls + defective py (g, db) msgs l\<rparr>)"
  using assms
proof (induction msgs arbitrary: g db ls)
  case Nil
  then show ?case by simp
next
  case (Cons m msgs)
  obtain env payload where m: "m = (env, payload)" by (cases m)
  obtain g1 db1 where s1: "on_message py env (g, db) payload = (g1, db1)"
    by (cases "on_message py env (g, db) payload")
  let ?t = "case reaches_statistics py env (g, db) payload of
              None \<Rightarrow> 0 | Some (line, prediction) \<Rightarrow> if line = JStr l then 1 else (0::nat)"
  let ?d = "case reaches_statistics py env (g, db) payload of
              None \<Rightarrow> 0
            | Some (line, prediction) \<Rightarrow> if line = JStr l \<and> prediction = 1 then 1 else (0::nat)"
  from on_message_by_line [OF Cons.prems, of py env db payload] s1
  have step: "by_line (stats g1) l =
      Some (ls\<lparr>line_total := line_total ls + ?t, line_defects := line_defects ls + ?d\<rparr>)"
    by simp
  from Cons.IH [OF step, of db1] m s1 show ?case
    by (simp add: add.assoc)
qed

text \<open>
  A run of two messages: the first is predicted defective and its commit fails, the
  second does not decode. One event is counted.
\<close>

theorem counters_count_handled_events_witness:
  "by_line (stats (stub_gateway (Inr (92 / 100)) pipeline_features (Some Connection))) ''Etching''
     = Some \<lparr>line_total = 0, line_defects = 0\<rparr>
   \<and> processed py0 (stub_gateway (Inr (92 / 100)) pipeline_features (Some Connection), idle_lines)
       [(server (Some Commit), Inr (event ''Etching'' ''OK'')), (server None, Inl DecodeError)]
       ''Etching'' = 1
   \<and> by_line (stats (fst (run py0
        (stub_gateway (Inr (92 / 100)) pipeline_features (Some Connection), idle_lines)
        [(server (Some Commit), Inr (event ''Etching'' ''OK'')), (server None, Inl DecodeError)])))
       ''Etching'' = Some \<lparr>line_total = 1, line_defects = 1\<rparr>"
proof -
  have s: "by_line (stats (stub_gateway (Inr (92 / 100)) pipeline_features (Some Connection))) ''Etching''
     = Some \<lparr>line_total = 0, line_defects = 0\<rparr>"
    by (rule stub_by_line)
  have p: "predict_defect (stub_gateway (Inr (92 / 100)) pipeline_features (Some Connection))
             (event ''Etching'' ''OK'') = (1, 92 / 100)"
    by (simp add: stub_predict)
  note h = stub_handled [OF p server_no_raise, of py0 "Some Commit" idle_lines]
  have n: "processed py0 (stub_gateway (Inr (92 / 100)) pipeline_features (Some Connection), idle_lines)
       [(server (Some Commit), Inr (event ''Etching'' ''OK'')), (server None, Inl DecodeError)]
       ''Etching'' = 1"
    unfolding processed.simps h by (simp add: reaches_statistics_def)
  have d: "defective py0 (stub_gateway (Inr (92 / 100)) pipeline_features (Some Connection), idle_lines)
       [(server (Some Commit), Inr (event ''Etching'' ''OK'')), (server None, Inl DecodeError)]
       ''Etching'' = 1"
    unfolding defective.simps h by (simp add: reaches_statistics_def)
  from counters_count_handled_events [OF s, of py0 idle_lines
      "[(server (Some Commit), Inr (event ''Etching'' ''OK'')), (server None, Inl DecodeError)]"]
  have "by_line (stats (fst (run py0
        (stub_gateway (Inr (92 / 100)) pipeline_features (Some Connection), idle_lines)
        [(server (Some Commit), Inr (event ''Etching'' ''OK'')), (server None, Inl DecodeError)])))
       ''Etching'' = Some \<lparr>line_total = 1, line_defects = 1\<rparr>"
    unfolding n d by simp
  with s n show ?thesis by blast
qed

end
